theory Spec2Isabelle
  imports Main
begin

section \<open>Strings as Python uses them\<close>

text \<open>
  QueryMancer turns technical database identifiers into natural-language names, search
  terms and a search index. Its text functions live in \<^verbatim>\<open>querymancer/utils.py\<close>, the
  assembler in \<^verbatim>\<open>querymancer/mapping_generator.py\<close>.

  A Python \<^verbatim>\<open>str\<close> is modelled as a \<^typ>\<open>string\<close>, a list of characters with the codes
  0 to 255. \<^verbatim>\<open>str.isspace\<close>, and with it \<^verbatim>\<open>split()\<close>, \<^verbatim>\<open>strip()\<close> and the \<^verbatim>\<open>\s\<close> of \<^verbatim>\<open>re\<close>,
  holds of the codes 9 to 13, 28 to 32, 133 and 160; \<^verbatim>\<open>[a-z]\<close>, \<^verbatim>\<open>[A-Z]\<close> and \<^verbatim>\<open>[0-9]\<close>
  are the ASCII ranges. Technical identifiers are written in ASCII, and the case
  mappings below are Python's on ASCII characters: they leave a character outside ASCII
  alone.
\<close>

definition code :: "char \<Rightarrow> nat" where
  "code c = of_char c"

definition is_lower :: "char \<Rightarrow> bool" where
  "is_lower c = (97 \<le> code c \<and> code c \<le> 122)"

definition is_upper :: "char \<Rightarrow> bool" where
  "is_upper c = (65 \<le> code c \<and> code c \<le> 90)"

definition is_digit :: "char \<Rightarrow> bool" where
  "is_digit c = (48 \<le> code c \<and> code c \<le> 57)"

definition isspace :: "char \<Rightarrow> bool" where
  "isspace c = ((9 \<le> code c \<and> code c \<le> 13) \<or> (28 \<le> code c \<and> code c \<le> 32)
                 \<or> code c = 133 \<or> code c = 160)"

definition lower_char :: "char \<Rightarrow> char" where
  "lower_char c = (if is_upper c then char_of (code c + 32) else c)"

definition upper_char :: "char \<Rightarrow> char" where
  "upper_char c = (if is_lower c then char_of (code c - 32) else c)"

text \<open>\<^verbatim>\<open>s.lower()\<close>\<close>

definition lower :: "string \<Rightarrow> string" where
  "lower s = map lower_char s"

text \<open>\<^verbatim>\<open>s.capitalize()\<close>: the first character in upper case, the others in lower case.\<close>

fun capitalize :: "string \<Rightarrow> string" where
  "capitalize [] = []"
| "capitalize (c # cs) = upper_char c # lower cs"

text \<open>\<^verbatim>\<open>s.startswith(p)\<close>, \<^verbatim>\<open>s.endswith(p)\<close> and \<^verbatim>\<open>sub in s\<close>.\<close>

definition startswith :: "string \<Rightarrow> string \<Rightarrow> bool" where
  "startswith s p = (take (length p) s = p)"

definition endswith :: "string \<Rightarrow> string \<Rightarrow> bool" where
  "endswith s p = (length p \<le> length s \<and> drop (length s - length p) s = p)"

fun py_in :: "string \<Rightarrow> string \<Rightarrow> bool" where
  "py_in sub [] = (sub = [])"
| "py_in sub (c # cs) = (startswith (c # cs) sub \<or> py_in sub cs)"

text \<open>\<^verbatim>\<open>any(term in s for term in terms)\<close>\<close>

definition any_in :: "string list \<Rightarrow> string \<Rightarrow> bool" where
  "any_in terms s = list_ex (\<lambda>t. py_in t s) terms"

text \<open>
  \<^verbatim>\<open>s.split()\<close>: the maximal runs of characters that are not white space; \<open>cur\<close> is the
  run being read.
\<close>

fun split_from :: "string \<Rightarrow> string \<Rightarrow> string list" where
  "split_from cur [] = (if cur = [] then [] else [cur])"
| "split_from cur (c # cs) =
     (if isspace c then (if cur = [] then split_from [] cs else cur # split_from [] cs)
      else split_from (cur @ [c]) cs)"

definition split :: "string \<Rightarrow> string list" where
  "split s = split_from [] s"

text \<open>\<^verbatim>\<open>' '.join(ws)\<close>\<close>

fun join :: "string list \<Rightarrow> string" where
  "join [] = []"
| "join [w] = w"
| "join (w # v # ws) = w @ CHR '' '' # join (v # ws)"

text \<open>\<^verbatim>\<open>s.strip()\<close>\<close>

definition strip :: "string \<Rightarrow> string" where
  "strip s = rev (dropWhile isspace (rev (dropWhile isspace s)))"

text \<open>
  \<^verbatim>\<open>list(set(xs))\<close>: each element once. Python leaves the order in which a set is listed
  open; the model lists it in one order, and nothing proved below depends on which.
\<close>

definition list_of_set :: "string list \<Rightarrow> string list" where
  "list_of_set xs = remdups xs"

section \<open>utils.py\<close>

text \<open>
  \<^verbatim>\<open>normalize_text\<close>: \<^verbatim>\<open>re.sub(r'[^a-zA-Z0-9\s]', ' ', text)\<close>, then
  \<^verbatim>\<open>' '.join(normalized.lower().split())\<close>.
\<close>

definition special_to_space :: "char \<Rightarrow> char" where
  "special_to_space c =
     (if is_lower c \<or> is_upper c \<or> is_digit c \<or> isspace c then c else CHR '' '')"

definition normalize_text :: "string \<Rightarrow> string" where
  "normalize_text text =
     (if text = [] then []
      else join (split (lower (map special_to_space text))))"

text \<open>
  \<^verbatim>\<open>camel_case_to_words\<close>: two substitutions, each replacing the non-overlapping matches
  from left to right: \<^verbatim>\<open>re.sub(r'([a-z])([A-Z])', r'\1 \2', text)\<close> and then
  \<^verbatim>\<open>re.sub(r'([A-Z])([A-Z][a-z])', r'\1 \2', result)\<close>.
\<close>

fun sub_lower_upper :: "string \<Rightarrow> string" where
  "sub_lower_upper (a # b # cs) =
     (if is_lower a \<and> is_upper b then a # CHR '' '' # b # sub_lower_upper cs
      else a # sub_lower_upper (b # cs))"
| "sub_lower_upper cs = cs"

fun sub_upper_upper_lower :: "string \<Rightarrow> string" where
  "sub_upper_upper_lower (a # b # c # cs) =
     (if is_upper a \<and> is_upper b \<and> is_lower c
      then a # CHR '' '' # b # c # sub_upper_upper_lower cs
      else a # sub_upper_upper_lower (b # c # cs))"
| "sub_upper_upper_lower cs = cs"

definition camel_case_to_words :: "string \<Rightarrow> string" where
  "camel_case_to_words camel_case =
     (if camel_case = [] then []
      else sub_upper_upper_lower (sub_lower_upper camel_case))"

text \<open>\<^verbatim>\<open>snake_case_to_words\<close>\<close>

definition snake_case_to_words :: "string \<Rightarrow> string" where
  "snake_case_to_words snake_case =
     (if snake_case = [] then []
      else strip (camel_case_to_words
             (map (\<lambda>c. if c = CHR ''_'' then CHR '' '' else c) snake_case)))"

text \<open>\<^verbatim>\<open>generate_synonyms\<close>: the table, in the order the dictionary is written.\<close>

definition synonym_map :: "(string \<times> string list) list" where
  "synonym_map =
     [(''id'', [''identifier'', ''key'', ''number'']),
      (''name'', [''title'', ''label'', ''description'']),
      (''date'', [''time'', ''timestamp'', ''created'', ''modified'']),
      (''user'', [''person'', ''customer'', ''client'', ''employee'']),
      (''order'', [''purchase'', ''transaction'', ''sale'']),
      (''product'', [''item'', ''goods'', ''service'']),
      (''address'', [''location'', ''place'']),
      (''phone'', [''telephone'', ''mobile'', ''contact'']),
      (''email'', [''mail'', ''contact'']),
      (''price'', [''cost'', ''amount'', ''value'']),
      (''quantity'', [''amount'', ''count'', ''number'']),
      (''status'', [''state'', ''condition'']),
      (''type'', [''category'', ''kind'', ''classification'']),
      (''code'', [''identifier'', ''reference'']),
      (''description'', [''details'', ''notes'', ''comments'']),
      (''created'', [''added'', ''inserted'', ''made'']),
      (''updated'', [''modified'', ''changed'', ''edited'']),
      (''deleted'', [''removed'', ''archived'']),
      (''active'', [''enabled'', ''current'', ''valid'']),
      (''inactive'', [''disabled'', ''archived'', ''old''])]"

definition generate_synonyms :: "string \<Rightarrow> string list" where
  "generate_synonyms word =
     (let word_lower = lower word;
          direct = (case map_of synonym_map word_lower of Some vs \<Rightarrow> vs | None \<Rightarrow> []);
          partial = concat (map snd
                      (filter (\<lambda>(key, vs). py_in key word_lower \<or> py_in word_lower key)
                         synonym_map))
      in list_of_set ([word] @ direct @ partial))"

text \<open>\<^verbatim>\<open>extract_meaningful_words\<close>\<close>

definition stop_words :: "string list" where
  "stop_words =
     [''a'', ''an'', ''and'', ''are'', ''as'', ''at'', ''be'', ''by'', ''for'', ''from'',
      ''has'', ''he'', ''in'', ''is'', ''it'', ''its'', ''of'', ''on'', ''that'', ''the'',
      ''to'', ''was'', ''will'', ''with'', ''tbl'', ''table'', ''db'', ''database'']"

definition extract_meaningful_words :: "string \<Rightarrow> string list" where
  "extract_meaningful_words text =
     (if text = [] then []
      else filter (\<lambda>word. length word > 2 \<and> word \<notin> set stop_words)
             (split (normalize_text text)))"

text \<open>
  \<^verbatim>\<open>convert_technical_to_natural\<close>: the first prefix of the list that the lowered name
  starts with is cut off, then the first suffix that the lowered name ends with
  (\<^verbatim>\<open>name[len(prefix):]\<close>, \<^verbatim>\<open>name[:-len(suffix)]\<close>, each loop left by \<^verbatim>\<open>break\<close>).
\<close>

definition prefixes_to_remove :: "string list" where
  "prefixes_to_remove = [''tbl_'', ''tb_'', ''table_'', ''dbo.'']"

definition suffixes_to_remove :: "string list" where
  "suffixes_to_remove = [''_id'', ''_key'', ''_ref'', ''_tbl'', ''_table'']"

fun remove_prefix :: "string list \<Rightarrow> string \<Rightarrow> string" where
  "remove_prefix [] name = name"
| "remove_prefix (prefix # ps) name =
     (if startswith (lower name) prefix then drop (length prefix) name
      else remove_prefix ps name)"

fun remove_suffix :: "string list \<Rightarrow> string \<Rightarrow> string" where
  "remove_suffix [] name = name"
| "remove_suffix (suffix # ss) name =
     (if endswith (lower name) suffix then take (length name - length suffix) name
      else remove_suffix ss name)"

definition convert_technical_to_natural :: "string \<Rightarrow> string" where
  "convert_technical_to_natural technical_name =
     (if technical_name = [] then []
      else
        let name = remove_prefix prefixes_to_remove technical_name;
            name = remove_suffix suffixes_to_remove name;
            natural = (if CHR ''_'' \<in> set name then snake_case_to_words name
                       else camel_case_to_words name)
        in join (map capitalize (split natural)))"

text \<open>
  \<^verbatim>\<open>create_search_terms\<close>: the name, its natural form when that is not empty and differs,
  the meaningful words of the natural form and their synonyms; at the end
  \<^verbatim>\<open>[term for term in set(search_terms) if term.strip()]\<close>.
\<close>

definition create_search_terms :: "string \<Rightarrow> string list" where
  "create_search_terms technical_name =
     (let natural = convert_technical_to_natural technical_name;
          words = extract_meaningful_words natural;
          search_terms =
            [technical_name]
            @ (if natural \<noteq> [] \<and> natural \<noteq> technical_name then [natural] else [])
            @ words
            @ concat (map generate_synonyms words)
      in filter (\<lambda>term. strip term \<noteq> []) (list_of_set search_terms))"

text \<open>
  \<^verbatim>\<open>format_field_description\<close>; \<open>data_type\<close> is optional in the source
  (\<^verbatim>\<open>data_type: str = None\<close>), and \<^verbatim>\<open>if data_type\<close> is false for \<^verbatim>\<open>None\<close> and for \<^verbatim>\<open>""\<close>.
\<close>

definition type_info :: "string \<Rightarrow> string" where
  "type_info data_type =
     (let data_type_lower = lower data_type in
      if py_in ''int'' data_type_lower \<or> py_in ''numeric'' data_type_lower
        then '' (number)''
      else if py_in ''varchar'' data_type_lower \<or> py_in ''text'' data_type_lower
        then '' (text)''
      else if py_in ''date'' data_type_lower \<or> py_in ''time'' data_type_lower
        then '' (date/time)''
      else if py_in ''bit'' data_type_lower \<or> py_in ''bool'' data_type_lower
        then '' (yes/no)''
      else [])"

definition format_field_description :: "string \<Rightarrow> string \<Rightarrow> string option \<Rightarrow> string" where
  "format_field_description table_name column_name data_type =
     (let table_natural = convert_technical_to_natural table_name;
          column_natural = convert_technical_to_natural column_name;
          description = column_natural;
          description =
            (if table_natural \<noteq> [] \<and> lower table_natural \<noteq> lower column_natural
             then description @ '' from '' @ table_natural else description)
      in case data_type of
           None \<Rightarrow> description
         | Some dt \<Rightarrow> (if dt = [] then description else description @ type_info dt))"

section \<open>Calls with \<^verbatim>\<open>None\<close>\<close>

text \<open>
  The parameters of the text functions are annotated \<^verbatim>\<open>str\<close>, and Python does not check
  the annotation. \<^verbatim>\<open>normalize_text\<close>, \<^verbatim>\<open>convert_technical_to_natural\<close> and
  \<^verbatim>\<open>extract_meaningful_words\<close> begin with \<^verbatim>\<open>if not text: return ...\<close>, which \<^verbatim>\<open>None\<close>
  takes as well as \<^verbatim>\<open>""\<close>. \<^verbatim>\<open>generate_synonyms\<close> begins with \<^verbatim>\<open>word.lower()\<close>, which
  raises \<^verbatim>\<open>AttributeError\<close> on \<^verbatim>\<open>None\<close>. \<^verbatim>\<open>create_search_terms(None)\<close> gets \<^verbatim>\<open>""\<close> as the
  natural name and no words, and raises at \<^verbatim>\<open>term.strip()\<close> in its last line, where the
  one term of the set is \<^verbatim>\<open>None\<close>.
\<close>

datatype error = AttributeError

definition call_normalize_text :: "string option \<Rightarrow> error + string" where
  "call_normalize_text text =
     (case text of None \<Rightarrow> Inr [] | Some t \<Rightarrow> Inr (normalize_text t))"

definition call_convert_technical_to_natural :: "string option \<Rightarrow> error + string" where
  "call_convert_technical_to_natural technical_name =
     (case technical_name of None \<Rightarrow> Inr []
      | Some t \<Rightarrow> Inr (convert_technical_to_natural t))"

definition call_extract_meaningful_words :: "string option \<Rightarrow> error + string list" where
  "call_extract_meaningful_words text =
     (case text of None \<Rightarrow> Inr [] | Some t \<Rightarrow> Inr (extract_meaningful_words t))"

definition call_generate_synonyms :: "string option \<Rightarrow> error + string list" where
  "call_generate_synonyms word =
     (case word of None \<Rightarrow> Inl AttributeError | Some w \<Rightarrow> Inr (generate_synonyms w))"

definition call_create_search_terms :: "string option \<Rightarrow> error + string list" where
  "call_create_search_terms technical_name =
     (case technical_name of None \<Rightarrow> Inl AttributeError
      | Some t \<Rightarrow> Inr (create_search_terms t))"

section \<open>The schema records (schema_extractor.py)\<close>

record ColumnInfo =
  name :: string
  data_type :: string
  max_length :: "int option"
  is_nullable :: bool
  default_value :: "string option"
  is_primary_key :: bool
  is_foreign_key :: bool
  referenced_table :: "string option"
  referenced_column :: "string option"

record TableInfo =
  name :: string
  schema :: string
  columns :: "ColumnInfo list"
  primary_keys :: "string list"
  foreign_keys :: "(string \<times> string) list list"
  row_count :: "int option"

section \<open>Dictionaries\<close>

text \<open>
  A Python \<^verbatim>\<open>dict\<close> keeps its keys in the order of their first insertion and holds each
  key once: it is modelled as an association list, \<^verbatim>\<open>d[k] = v\<close> replacing the value in
  place when \<open>k\<close> is already a key and appending the pair otherwise.
\<close>

fun dict_set :: "('k \<times> 'v) list \<Rightarrow> 'k \<Rightarrow> 'v \<Rightarrow> ('k \<times> 'v) list" where
  "dict_set [] k v = [(k, v)]"
| "dict_set ((k', v') # d) k v =
     (if k' = k then (k, v) # d else (k', v') # dict_set d k v)"

definition dict_has :: "('k \<times> 'v) list \<Rightarrow> 'k \<Rightarrow> bool" where
  "dict_has d k = (k \<in> set (map fst d))"

section \<open>mapping_generator.py\<close>

text \<open>\<^verbatim>\<open>determine_column_category\<close>: the first rule that applies gives the category.\<close>

definition determine_column_category :: "ColumnInfo \<Rightarrow> string" where
  "determine_column_category column =
     (let name_lower = lower (ColumnInfo.name column);
          type_lower = lower (data_type column) in
      if is_primary_key column then ''identifier''
      else if is_foreign_key column then ''reference''
      else if any_in [''date'', ''time'', ''created'', ''modified'', ''updated''] name_lower
              \<or> any_in [''date'', ''time'', ''timestamp''] type_lower
        then ''datetime''
      else if any_in [''int'', ''decimal'', ''numeric'', ''float'', ''money''] type_lower
        then (if any_in [''price'', ''cost'', ''amount'', ''value'', ''total''] name_lower
                then ''money''
              else if any_in [''quantity'', ''count'', ''number''] name_lower
                then ''quantity''
              else ''numeric'')
      else if any_in [''bit'', ''bool''] type_lower
              \<or> any_in [''is_'', ''has_'', ''active'', ''enabled''] name_lower
        then ''boolean''
      else if any_in [''varchar'', ''text'', ''char''] type_lower
        then (if any_in [''email'', ''mail''] name_lower then ''email''
              else if any_in [''phone'', ''telephone'', ''mobile''] name_lower then ''phone''
              else if any_in [''address'', ''street'', ''city'', ''state'', ''zip''] name_lower
                then ''address''
              else if any_in [''name'', ''title'', ''label''] name_lower then ''name''
              else if any_in [''description'', ''notes'', ''comment''] name_lower
                then ''description''
              else ''text'')
      else ''general'')"

text \<open>
  \<^verbatim>\<open>generate_search_index\<close>. \<open>schema_info\<close> is the dictionary from table path to table,
  as the list of its items. A term of the table appends the table path to the bucket of
  the lowered term; a term of a column appends the column path only
  \<^verbatim>\<open>if column_path not in search_index[term_lower]\<close>. The bucket read is that of a key
  which the line before has made sure is there.
\<close>

type_synonym search_index = "(string \<times> string list) list"

definition bucket :: "search_index \<Rightarrow> string \<Rightarrow> string list" where
  "bucket search_index term = (case map_of search_index term of Some ps \<Rightarrow> ps | None \<Rightarrow> [])"

definition add_table_term :: "string \<Rightarrow> search_index \<Rightarrow> string \<Rightarrow> search_index" where
  "add_table_term table_name search_index term =
     (let term_lower = lower term;
          search_index = (if \<not> dict_has search_index term_lower
                          then dict_set search_index term_lower [] else search_index)
      in dict_set search_index term_lower (bucket search_index term_lower @ [table_name]))"

definition add_column_term :: "string \<Rightarrow> search_index \<Rightarrow> string \<Rightarrow> search_index" where
  "add_column_term column_path search_index term =
     (let term_lower = lower term;
          search_index = (if \<not> dict_has search_index term_lower
                          then dict_set search_index term_lower [] else search_index)
      in if column_path \<notin> set (bucket search_index term_lower)
         then dict_set search_index term_lower (bucket search_index term_lower @ [column_path])
         else search_index)"

definition add_column :: "string \<Rightarrow> search_index \<Rightarrow> ColumnInfo \<Rightarrow> search_index" where
  "add_column table_name search_index column =
     foldl (add_column_term (table_name @ ''.'' @ ColumnInfo.name column)) search_index
       (create_search_terms (ColumnInfo.name column))"

definition add_table :: "search_index \<Rightarrow> string \<times> TableInfo \<Rightarrow> search_index" where
  "add_table search_index item =
     (case item of (table_name, table_info) \<Rightarrow>
        foldl (add_column table_name)
          (foldl (add_table_term table_name) search_index
             (create_search_terms (TableInfo.name table_info)))
          (TableInfo.columns table_info))"

definition generate_search_index :: "(string \<times> TableInfo) list \<Rightarrow> search_index" where
  "generate_search_index schema_info = foldl add_table [] schema_info"

text \<open>
  \<^verbatim>\<open>generate_column_examples\<close>: three fixed phrases, one block chosen by the first test
  that holds, a phrase for each of the first three synonyms other than the name, and of
  all that the first ten.
\<close>

definition generate_column_examples :: "ColumnInfo \<Rightarrow> string list" where
  "generate_column_examples column =
     (let natural_name = convert_technical_to_natural (ColumnInfo.name column);
          name_lower = lower (ColumnInfo.name column);
          examples = [''show me '' @ natural_name,
                      ''what is the '' @ natural_name,
                      ''find '' @ natural_name];
          examples = examples @
            (if is_primary_key column then
               [''find by '' @ natural_name,
                ''get record with '' @ natural_name,
                ''lookup '' @ natural_name]
             else if py_in ''date'' name_lower \<or> py_in ''time'' name_lower then
               [''when was '' @ natural_name,
                ''show '' @ natural_name @ '' after'',
                ''filter by '' @ natural_name]
             else if any_in [''price'', ''cost'', ''amount'', ''value'', ''total''] name_lower then
               [''how much is '' @ natural_name,
                ''total '' @ natural_name,
                ''average '' @ natural_name,
                natural_name @ '' greater than'',
                natural_name @ '' less than'']
             else if any_in [''quantity'', ''count'', ''number''] name_lower then
               [''how many '' @ natural_name,
                ''count of '' @ natural_name,
                ''sum of '' @ natural_name]
             else if any_in [''name'', ''title''] name_lower then
               [''find by '' @ natural_name,
                ''search '' @ natural_name,
                natural_name @ '' contains'',
                natural_name @ '' starts with'']
             else if any_in [''status'', ''state'', ''type'', ''category''] name_lower then
               [''where '' @ natural_name @ '' is'',
                ''filter by '' @ natural_name,
                ''group by '' @ natural_name]
             else []);
          synonyms = generate_synonyms (ColumnInfo.name column);
          examples = examples @
            map (\<lambda>synonym. ''show me '' @ synonym)
              (filter (\<lambda>synonym. synonym \<noteq> ColumnInfo.name column) (take 3 synonyms))
      in take 10 examples)"

text \<open>The dictionaries that \<^verbatim>\<open>generate_column_mapping\<close> returns.\<close>

record ColumnMetadata =
  max_length :: "int option"
  is_nullable :: bool
  default_value :: "string option"
  is_primary_key :: bool
  is_foreign_key :: bool
  referenced_table :: "string option"
  referenced_column :: "string option"

record ColumnMapping =
  technical_name :: string
  natural_name :: string
  description :: string
  data_type :: string
  search_terms :: "string list"
  synonyms :: "string list"
  category :: string
  examples :: "string list"
  metadata :: ColumnMetadata

definition generate_column_mapping :: "TableInfo \<Rightarrow> ColumnInfo \<Rightarrow> ColumnMapping" where
  "generate_column_mapping table_info column =
     \<lparr>technical_name = ColumnInfo.name column,
      natural_name = convert_technical_to_natural (ColumnInfo.name column),
      description = format_field_description (TableInfo.name table_info)
                      (ColumnInfo.name column) (Some (ColumnInfo.data_type column)),
      data_type = ColumnInfo.data_type column,
      search_terms = create_search_terms (ColumnInfo.name column),
      synonyms = generate_synonyms (ColumnInfo.name column),
      category = determine_column_category column,
      examples = generate_column_examples column,
      metadata =
        \<lparr>max_length = ColumnInfo.max_length column,
         is_nullable = ColumnInfo.is_nullable column,
         default_value = ColumnInfo.default_value column,
         is_primary_key = ColumnInfo.is_primary_key column,
         is_foreign_key = ColumnInfo.is_foreign_key column,
         referenced_table = ColumnInfo.referenced_table column,
         referenced_column = ColumnInfo.referenced_column column\<rparr>\<rparr>"

text \<open>
  \<^verbatim>\<open>generate_table_mapping\<close>; the loop \<^verbatim>\<open>columns[column.name] = column_mapping\<close> fills a
  dictionary keyed by the column name.
\<close>

record TableMetadata =
  schema :: string
  table_name :: string
  column_count :: nat
  has_primary_key :: bool
  has_foreign_keys :: bool

record TableMapping =
  technical_name :: string
  natural_name :: string
  description :: string
  search_terms :: "string list"
  synonyms :: "string list"
  columns :: "(string \<times> ColumnMapping) list"
  primary_keys :: "string list"
  foreign_keys :: "(string \<times> string) list list"
  row_count :: "int option"
  metadata :: TableMetadata

definition column_mappings :: "TableInfo \<Rightarrow> (string \<times> ColumnMapping) list" where
  "column_mappings table_info =
     foldl (\<lambda>columns column.
              dict_set columns (ColumnInfo.name column)
                (generate_column_mapping table_info column))
       [] (TableInfo.columns table_info)"

definition generate_table_mapping :: "TableInfo \<Rightarrow> TableMapping" where
  "generate_table_mapping table_info =
     (let natural_name = convert_technical_to_natural (TableInfo.name table_info) in
      \<lparr>technical_name = TableInfo.schema table_info @ ''.'' @ TableInfo.name table_info,
       natural_name = natural_name,
       description = ''Data from the '' @ natural_name @ '' table'',
       search_terms = create_search_terms (TableInfo.name table_info),
       synonyms = generate_synonyms (TableInfo.name table_info),
       columns = column_mappings table_info,
       primary_keys = TableInfo.primary_keys table_info,
       foreign_keys = TableInfo.foreign_keys table_info,
       row_count = TableInfo.row_count table_info,
       metadata =
         \<lparr>schema = TableInfo.schema table_info,
          table_name = TableInfo.name table_info,
          column_count = length (TableInfo.columns table_info),
          has_primary_key = (length (TableInfo.primary_keys table_info) > 0),
          has_foreign_keys = (length (TableInfo.foreign_keys table_info) > 0)\<rparr>\<rparr>)"

text \<open>
  \<^verbatim>\<open>generate_database_mapping\<close>. The generator object holds the client key and the
  client's configuration, of which the name and the database are read;
  \<^verbatim>\<open>datetime.now().isoformat()\<close> is read twice, and the two readings are arguments here.
  The result is \<^verbatim>\<open>{}\<close> when \<^verbatim>\<open>not schema_info\<close>, modelled as \<open>None\<close>, and the mapping
  otherwise.
\<close>

record MappingGenerator =
  client_key :: string
  client_name :: string
  database :: string

record ClientInfo =
  client_key :: string
  client_name :: string
  database :: string
  generation_date :: string
  total_tables :: nat
  total_columns :: nat

record MappingMetadata =
  version :: string
  generator :: string
  schema_extraction_date :: string

record DatabaseMapping =
  client_info :: ClientInfo
  tables :: "(string \<times> TableMapping) list"
  search_index :: search_index
  metadata :: MappingMetadata

definition table_mappings :: "(string \<times> TableInfo) list \<Rightarrow> (string \<times> TableMapping) list" where
  "table_mappings schema_info =
     foldl (\<lambda>tables item. case item of (table_key, table_info) \<Rightarrow>
              dict_set tables table_key (generate_table_mapping table_info))
       [] schema_info"

definition generate_database_mapping ::
    "MappingGenerator \<Rightarrow> string \<Rightarrow> string \<Rightarrow> (string \<times> TableInfo) list
       \<Rightarrow> DatabaseMapping option" where
  "generate_database_mapping self now1 now2 schema_info =
     (if schema_info = [] then None
      else
        let tables = table_mappings schema_info;
            search_index = generate_search_index schema_info
        in Some
          \<lparr>client_info =
             \<lparr>client_key = MappingGenerator.client_key self,
              client_name = MappingGenerator.client_name self,
              database = MappingGenerator.database self,
              generation_date = now1,
              total_tables = length tables,
              total_columns =
                sum_list (map (\<lambda>table. length (TableMapping.columns table)) (map snd tables))\<rparr>,
           tables = tables,
           search_index = search_index,
           metadata =
             \<lparr>version = ''1.0'',
              generator = ''QueryMancer Mapping Generator'',
              schema_extraction_date = now2\<rparr>\<rparr>)"

section \<open>Inputs used below\<close>

text \<open>The strings that \<^verbatim>\<open>determine_column_category\<close> returns, in the order of its rules.\<close>

definition categories :: "string list" where
  "categories =
     [''identifier'', ''reference'', ''datetime'', ''money'', ''quantity'', ''numeric'',
      ''boolean'', ''email'', ''phone'', ''address'', ''name'', ''description'', ''text'',
      ''general'']"

text \<open>A column as the extractor builds it: name, type and the two key flags.\<close>

definition column_of :: "string \<Rightarrow> string \<Rightarrow> bool \<Rightarrow> bool \<Rightarrow> ColumnInfo" where
  "column_of n t pk fk =
     \<lparr>ColumnInfo.name = n, data_type = t, max_length = None, is_nullable = False,
      default_value = None, is_primary_key = pk, is_foreign_key = fk,
      referenced_table = None, referenced_column = None\<rparr>"

definition table_of :: "string \<Rightarrow> string \<Rightarrow> ColumnInfo list \<Rightarrow> TableInfo" where
  "table_of s n cs =
     \<lparr>TableInfo.name = n, schema = s, columns = cs,
      primary_keys = map ColumnInfo.name (filter ColumnInfo.is_primary_key cs),
      foreign_keys = [], row_count = None\<rparr>"

text \<open>The table of the end-to-end scenario: \<^verbatim>\<open>dbo.Customers\<close> with its two columns.\<close>

definition customers :: "(string \<times> TableInfo) list" where
  "customers =
     [(''dbo.Customers'',
       table_of ''dbo'' ''Customers''
         [column_of ''CustomerID'' ''int'' True False,
          column_of ''CustomerName'' ''varchar'' False False])]"

definition client_a :: MappingGenerator where
  "client_a =
     \<lparr>MappingGenerator.client_key = ''client_a'', client_name = ''Client A'',
      database = ''ClientA_DB''\<rparr>"

section \<open>Characters and words\<close>

lemma code_char_of: "code (char_of n) = n mod 256"
  by (simp add: code_def)

lemma isspace_blank: "isspace (CHR '' '')"
  by (simp add: isspace_def code_def)

lemma lower_char_upper: "is_upper c \<Longrightarrow> is_lower (lower_char c)"
  by (simp add: lower_char_def is_lower_def is_upper_def code_char_of)

lemma lower_char_other: "\<not> is_upper c \<Longrightarrow> lower_char c = c"
  by (simp add: lower_char_def)

lemma special_class:
  "is_lower (special_to_space c) \<or> is_upper (special_to_space c)
     \<or> is_digit (special_to_space c) \<or> isspace (special_to_space c)"
proof (cases "is_lower c \<or> is_upper c \<or> is_digit c \<or> isspace c")
  case True
  then show ?thesis by (simp add: special_to_space_def)
next
  case False
  then have "special_to_space c = CHR '' ''" by (simp add: special_to_space_def)
  then show ?thesis by (simp add: isspace_blank)
qed

lemma lower_special_class:
  "is_lower (lower_char (special_to_space c)) \<or> is_digit (lower_char (special_to_space c))
     \<or> isspace (lower_char (special_to_space c))"
  using special_class [of c] lower_char_upper [of "special_to_space c"]
    lower_char_other [of "special_to_space c"]
  by (cases "is_upper (special_to_space c)") auto

lemma special_lower_fixed:
  "is_lower c \<or> is_digit c \<or> c = CHR '' '' \<Longrightarrow> lower_char (special_to_space c) = c"
  by (auto simp: lower_char_def special_to_space_def is_lower_def is_upper_def is_digit_def
      isspace_def code_def)

text \<open>Reading a run without white space only extends the word being read.\<close>

lemma split_from_no_space:
  "\<forall>c\<in>set w. \<not> isspace c \<Longrightarrow> split_from cur (w @ rest) = split_from (cur @ w) rest"
  by (induction w arbitrary: cur) auto

lemma split_from_chars:
  "w \<in> set (split_from cur s) \<Longrightarrow> c \<in> set w \<Longrightarrow> c \<in> set s \<and> \<not> isspace c \<or> c \<in> set cur"
  by (induction cur s arbitrary: w rule: split_from.induct) (auto split: if_splits)

lemma split_from_nonempty: "w \<in> set (split_from cur s) \<Longrightarrow> w \<noteq> []"
  by (induction cur s rule: split_from.induct) (auto split: if_splits)

lemma split_word_chars:
  "w \<in> set (split s) \<Longrightarrow> c \<in> set w \<Longrightarrow> c \<in> set s \<and> \<not> isspace c"
  using split_from_chars [of w "[]" s c] by (simp add: split_def)

text \<open>Splitting what was joined from words gives the words back.\<close>

lemma split_join:
  "\<forall>w\<in>set ws. w \<noteq> [] \<and> (\<forall>c\<in>set w. \<not> isspace c) \<Longrightarrow> split (join ws) = ws"
proof (induction ws rule: join.induct)
  case 1
  then show ?case by (simp add: split_def)
next
  case (2 w)
  then show ?case using split_from_no_space [of w "[]" "[]"] by (simp add: split_def)
next
  case (3 w v ws)
  from 3 have "split_from [] (w @ CHR '' '' # join (v # ws))
      = split_from w (CHR '' '' # join (v # ws))"
    using split_from_no_space [of w "[]" "CHR '' '' # join (v # ws)"] by simp
  with 3 isspace_blank show ?case by (simp add: split_def)
qed

lemma join_chars: "c \<in> set (join ws) \<Longrightarrow> c = CHR '' '' \<or> (\<exists>w\<in>set ws. c \<in> set w)"
  by (induction ws rule: join.induct) auto

section \<open>normalize_text\<close>

lemma normalize_join:
  assumes "\<forall>w\<in>set ws. w \<noteq> [] \<and> (\<forall>c\<in>set w. \<not> isspace c \<and> (is_lower c \<or> is_digit c))"
  shows "normalize_text (join ws) = join ws"
proof -
  have fixed: "lower_char (special_to_space c) = c" if c: "c \<in> set (join ws)" for c
  proof -
    from join_chars [OF c] show ?thesis
    proof
      assume "c = CHR '' ''"
      then show ?thesis by (rule special_lower_fixed [OF disjI2, OF disjI2])
    next
      assume "\<exists>w\<in>set ws. c \<in> set w"
      then obtain w where "w \<in> set ws" and "c \<in> set w" by (rule bexE)
      with assms have "is_lower c \<or> is_digit c" by simp
      then show ?thesis using special_lower_fixed [of c] by fast
    qed
  qed
  have "map (\<lambda>c. lower_char (special_to_space c)) (join ws) = join ws"
    by (rule map_idI) (rule fixed)
  then have "lower (map special_to_space (join ws)) = join ws"
    by (simp add: lower_def comp_def)
  moreover have "split (join ws) = ws"
  proof (rule split_join, rule ballI)
    fix w assume "w \<in> set ws"
    with assms show "w \<noteq> [] \<and> (\<forall>c\<in>set w. \<not> isspace c)" by simp
  qed
  ultimately show ?thesis by (simp add: normalize_text_def)
qed

text \<open>
  Claim C9. \<^verbatim>\<open>normalize_text\<close> is idempotent: normalizing a normalized string changes
  nothing, for every string.
\<close>

theorem normalize_text_idempotent: "normalize_text (normalize_text s) = normalize_text s"
proof (cases "s = []")
  case True
  then show ?thesis by (simp add: normalize_text_def)
next
  case False
  let ?t = "lower (map special_to_space s)"
  have "\<forall>w\<in>set (split ?t). w \<noteq> [] \<and> (\<forall>c\<in>set w. \<not> isspace c \<and> (is_lower c \<or> is_digit c))"
  proof (intro ballI conjI)
    fix w assume w: "w \<in> set (split ?t)"
    then show "w \<noteq> []" using split_from_nonempty by (auto simp: split_def)
    fix c assume c: "c \<in> set w"
    with w have c': "c \<in> set ?t \<and> \<not> isspace c" by (rule split_word_chars)
    then show "\<not> isspace c" by simp
    from c' obtain d where "c = lower_char (special_to_space d)" by (auto simp: lower_def)
    with c' lower_special_class [of d] show "is_lower c \<or> is_digit c" by auto
  qed
  then have "normalize_text (join (split ?t)) = join (split ?t)" by (rule normalize_join)
  with False show ?thesis by (simp add: normalize_text_def)
qed

section \<open>The natural names of the fixtures\<close>

text \<open>
  Claim C2. \<^verbatim>\<open>convert_technical_to_natural\<close> on the five named fixtures. Four come out as
  the claim says. \<^verbatim>\<open>"CustomerID"\<close> is segmented into \<^verbatim>\<open>"Customer ID"\<close>, and then
  \<^verbatim>\<open>word.capitalize()\<close> lowers every character after the first of each word, so that the
  result is \<^verbatim>\<open>"Customer Id"\<close> and not the \<^verbatim>\<open>"Customer ID"\<close> of the claim.
\<close>

theorem convert_technical_to_natural_fixtures:
  "convert_technical_to_natural ''tbl_Customer_Orders'' = ''Customer Orders'' \<and>
   convert_technical_to_natural ''CustomerID'' = ''Customer Id'' \<and>
   convert_technical_to_natural ''OrderDate'' = ''Order Date'' \<and>
   convert_technical_to_natural ''IsActive'' = ''Is Active'' \<and>
   convert_technical_to_natural ''user_profile_settings'' = ''User Profile Settings''"
  by code_simp

section \<open>The price column\<close>

text \<open>
  Claim C3, as the code has it. The column \<^verbatim>\<open>UnitPrice\<close> of type \<^verbatim>\<open>decimal\<close>, no key, on the
  table \<^verbatim>\<open>Products\<close> is of category \<^verbatim>\<open>money\<close>, and its description is
  \<^verbatim>\<open>"Unit Price from Products"\<close>: the type hint \<^verbatim>\<open>" (number)"\<close> is added for a type that
  contains \<^verbatim>\<open>int\<close> or \<^verbatim>\<open>numeric\<close>, and \<^verbatim>\<open>decimal\<close> contains neither.
\<close>

theorem unit_price_money_and_description:
  "determine_column_category (column_of ''UnitPrice'' ''decimal'' False False) = ''money'' \<and>
   format_field_description ''Products'' ''UnitPrice'' (Some ''decimal'')
     = ''Unit Price from Products''"
  by code_simp

text \<open>The description the claim C3 gives is not the one the code returns.\<close>

theorem unit_price_description_counterexample:
  "format_field_description ''Products'' ''UnitPrice'' (Some ''decimal'')
     \<noteq> ''Unit Price from Products (number)''"
  by code_simp

section \<open>The column classifier\<close>

text \<open>
  Claim C6. \<^verbatim>\<open>determine_column_category\<close> gives every column, whatever its name, type and
  key flags, one of the fourteen category names (which differ from each other), and it
  gives the category of the first rule that applies: a primary key is an \<^verbatim>\<open>identifier\<close>
  whatever its name and type; a foreign key that is no primary key is a \<^verbatim>\<open>reference\<close>;
  then come, each only where none before it applies, the datetime rule, the numeric
  types with \<^verbatim>\<open>money\<close> before \<^verbatim>\<open>quantity\<close> before \<^verbatim>\<open>numeric\<close>, the boolean rule, the text
  types with their names in the order \<^verbatim>\<open>email\<close>, \<^verbatim>\<open>phone\<close>, \<^verbatim>\<open>address\<close>, \<^verbatim>\<open>name\<close>,
  \<^verbatim>\<open>description\<close>, \<^verbatim>\<open>text\<close>, and \<^verbatim>\<open>general\<close> for what is left.
\<close>

theorem determine_column_category_precedence:
  "determine_column_category c \<in> set categories \<and> distinct categories \<and>
   (ColumnInfo.is_primary_key c \<longrightarrow> determine_column_category c = ''identifier'') \<and>
   (\<not> ColumnInfo.is_primary_key c \<longrightarrow>
     (ColumnInfo.is_foreign_key c \<longrightarrow> determine_column_category c = ''reference'') \<and>
     (\<not> ColumnInfo.is_foreign_key c \<longrightarrow>
       (any_in [''date'', ''time'', ''created'', ''modified'', ''updated'']
            (lower (ColumnInfo.name c))
          \<or> any_in [''date'', ''time'', ''timestamp''] (lower (ColumnInfo.data_type c))
        \<longrightarrow> determine_column_category c = ''datetime'') \<and>
       (\<not> (any_in [''date'', ''time'', ''created'', ''modified'', ''updated'']
              (lower (ColumnInfo.name c))
            \<or> any_in [''date'', ''time'', ''timestamp''] (lower (ColumnInfo.data_type c)))
        \<longrightarrow>
         (any_in [''int'', ''decimal'', ''numeric'', ''float'', ''money'']
              (lower (ColumnInfo.data_type c)) \<longrightarrow>
           determine_column_category c =
             (if any_in [''price'', ''cost'', ''amount'', ''value'', ''total'']
                   (lower (ColumnInfo.name c)) then ''money''
              else if any_in [''quantity'', ''count'', ''number'']
                   (lower (ColumnInfo.name c)) then ''quantity''
              else ''numeric'')) \<and>
         (\<not> any_in [''int'', ''decimal'', ''numeric'', ''float'', ''money'']
              (lower (ColumnInfo.data_type c)) \<longrightarrow>
           (any_in [''bit'', ''bool''] (lower (ColumnInfo.data_type c))
              \<or> any_in [''is_'', ''has_'', ''active'', ''enabled'']
                   (lower (ColumnInfo.name c))
            \<longrightarrow> determine_column_category c = ''boolean'') \<and>
           (\<not> (any_in [''bit'', ''bool''] (lower (ColumnInfo.data_type c))
                \<or> any_in [''is_'', ''has_'', ''active'', ''enabled'']
                     (lower (ColumnInfo.name c)))
            \<longrightarrow>
             (any_in [''varchar'', ''text'', ''char''] (lower (ColumnInfo.data_type c)) \<longrightarrow>
               determine_column_category c =
                 (if any_in [''email'', ''mail''] (lower (ColumnInfo.name c)) then ''email''
                  else if any_in [''phone'', ''telephone'', ''mobile'']
                       (lower (ColumnInfo.name c)) then ''phone''
                  else if any_in [''address'', ''street'', ''city'', ''state'', ''zip'']
                       (lower (ColumnInfo.name c)) then ''address''
                  else if any_in [''name'', ''title'', ''label'']
                       (lower (ColumnInfo.name c)) then ''name''
                  else if any_in [''description'', ''notes'', ''comment'']
                       (lower (ColumnInfo.name c)) then ''description''
                  else ''text'')) \<and>
             (\<not> any_in [''varchar'', ''text'', ''char''] (lower (ColumnInfo.data_type c))
              \<longrightarrow> determine_column_category c = ''general''))))))"
  by (simp add: determine_column_category_def categories_def Let_def)

text \<open>
  One column for each of seven rules. The primary key \<^verbatim>\<open>CreatedDate\<close> is an identifier and
  the foreign key \<^verbatim>\<open>OrderDate\<close> a reference, though name and type of both are those of a
  datetime.
\<close>

theorem determine_column_category_precedence_witness:
  "ColumnInfo.is_primary_key (column_of ''CreatedDate'' ''datetime'' True False) \<and>
   \<not> ColumnInfo.is_primary_key (column_of ''OrderDate'' ''datetime'' False True) \<and>
   ColumnInfo.is_foreign_key (column_of ''OrderDate'' ''datetime'' False True) \<and>
   determine_column_category (column_of ''CreatedDate'' ''datetime'' True False) =
       ''identifier'' \<and>
   determine_column_category (column_of ''OrderDate'' ''datetime'' False True) =
       ''reference'' \<and>
   determine_column_category (column_of ''OrderDate'' ''datetime'' False False) =
       ''datetime'' \<and>
   determine_column_category (column_of ''UnitPrice'' ''decimal'' False False) = ''money''
       \<and>
   determine_column_category (column_of ''IsActive'' ''bit'' False False) = ''boolean''
       \<and>
   determine_column_category (column_of ''CustomerName'' ''varchar'' False False) =
       ''name'' \<and>
   determine_column_category (column_of ''Payload'' ''varbinary'' False False) =
       ''general''"
proof -
  let ?c1 = "column_of ''CreatedDate'' ''datetime'' True False"
  let ?c2 = "column_of ''OrderDate'' ''datetime'' False True"
  let ?c3 = "column_of ''OrderDate'' ''datetime'' False False"
  let ?c4 = "column_of ''UnitPrice'' ''decimal'' False False"
  let ?c5 = "column_of ''IsActive'' ''bit'' False False"
  let ?c6 = "column_of ''CustomerName'' ''varchar'' False False"
  let ?c7 = "column_of ''Payload'' ''varbinary'' False False"
  have c1_pk: "ColumnInfo.is_primary_key ?c1"
    by (simp add: column_of_def)
  have c1: "determine_column_category ?c1 = ''identifier''"
    using determine_column_category_precedence [of ?c1] c1_pk by simp
  have c2_pk: "\<not> ColumnInfo.is_primary_key ?c2"
    by (simp add: column_of_def)
  have c2_fk: "ColumnInfo.is_foreign_key ?c2"
    by (simp add: column_of_def)
  have c2: "determine_column_category ?c2 = ''reference''"
    using determine_column_category_precedence [of ?c2] c2_pk c2_fk by simp
  have c3_pk: "\<not> ColumnInfo.is_primary_key ?c3"
    by (simp add: column_of_def)
  have c3_fk: "\<not> ColumnInfo.is_foreign_key ?c3"
    by (simp add: column_of_def)
  have c3_dt: "any_in [''date'', ''time'', ''created'', ''modified'', ''updated''] (lower
      (ColumnInfo.name ?c3)) \<or> any_in [''date'', ''time'', ''timestamp''] (lower
      (ColumnInfo.data_type ?c3))"
    by code_simp
  have c3: "determine_column_category ?c3 = ''datetime''"
    using determine_column_category_precedence [of ?c3] c3_pk c3_fk c3_dt by simp
  have c4_pk: "\<not> ColumnInfo.is_primary_key ?c4"
    by (simp add: column_of_def)
  have c4_fk: "\<not> ColumnInfo.is_foreign_key ?c4"
    by (simp add: column_of_def)
  have c4_dt: "\<not> (any_in [''date'', ''time'', ''created'', ''modified'', ''updated'']
      (lower (ColumnInfo.name ?c4)) \<or> any_in [''date'', ''time'', ''timestamp''] (lower
      (ColumnInfo.data_type ?c4)))"
    by code_simp
  have c4_num: "any_in [''int'', ''decimal'', ''numeric'', ''float'', ''money''] (lower
      (ColumnInfo.data_type ?c4))"
    by code_simp
  have c4_mon: "any_in [''price'', ''cost'', ''amount'', ''value'', ''total''] (lower
      (ColumnInfo.name ?c4))"
    by code_simp
  have c4: "determine_column_category ?c4 = ''money''"
    using determine_column_category_precedence [of ?c4] c4_pk c4_fk c4_dt c4_num c4_mon by
        simp
  have c5_pk: "\<not> ColumnInfo.is_primary_key ?c5"
    by (simp add: column_of_def)
  have c5_fk: "\<not> ColumnInfo.is_foreign_key ?c5"
    by (simp add: column_of_def)
  have c5_dt: "\<not> (any_in [''date'', ''time'', ''created'', ''modified'', ''updated'']
      (lower (ColumnInfo.name ?c5)) \<or> any_in [''date'', ''time'', ''timestamp''] (lower
      (ColumnInfo.data_type ?c5)))"
    by code_simp
  have c5_num: "\<not> any_in [''int'', ''decimal'', ''numeric'', ''float'', ''money'']
      (lower (ColumnInfo.data_type ?c5))"
    by code_simp
  have c5_bool: "any_in [''bit'', ''bool''] (lower (ColumnInfo.data_type ?c5)) \<or> any_in
      [''is_'', ''has_'', ''active'', ''enabled''] (lower (ColumnInfo.name ?c5))"
    by code_simp
  have c5: "determine_column_category ?c5 = ''boolean''"
    using determine_column_category_precedence [of ?c5] c5_pk c5_fk c5_dt c5_num c5_bool by
        simp
  have c6_pk: "\<not> ColumnInfo.is_primary_key ?c6"
    by (simp add: column_of_def)
  have c6_fk: "\<not> ColumnInfo.is_foreign_key ?c6"
    by (simp add: column_of_def)
  have c6_dt: "\<not> (any_in [''date'', ''time'', ''created'', ''modified'', ''updated'']
      (lower (ColumnInfo.name ?c6)) \<or> any_in [''date'', ''time'', ''timestamp''] (lower
      (ColumnInfo.data_type ?c6)))"
    by code_simp
  have c6_num: "\<not> any_in [''int'', ''decimal'', ''numeric'', ''float'', ''money'']
      (lower (ColumnInfo.data_type ?c6))"
    by code_simp
  have c6_bool: "\<not> (any_in [''bit'', ''bool''] (lower (ColumnInfo.data_type ?c6))
      \<or> any_in [''is_'', ''has_'', ''active'', ''enabled''] (lower (ColumnInfo.name
      ?c6)))"
    by code_simp
  have c6_txt: "any_in [''varchar'', ''text'', ''char''] (lower (ColumnInfo.data_type ?c6))"
    by code_simp
  have c6_em: "\<not> any_in [''email'', ''mail''] (lower (ColumnInfo.name ?c6))"
    by code_simp
  have c6_ph: "\<not> any_in [''phone'', ''telephone'', ''mobile''] (lower (ColumnInfo.name
      ?c6))"
    by code_simp
  have c6_ad: "\<not> any_in [''address'', ''street'', ''city'', ''state'', ''zip''] (lower
      (ColumnInfo.name ?c6))"
    by code_simp
  have c6_nm: "any_in [''name'', ''title'', ''label''] (lower (ColumnInfo.name ?c6))"
    by code_simp
  have c6: "determine_column_category ?c6 = ''name''"
    using determine_column_category_precedence [of ?c6] c6_pk c6_fk c6_dt c6_num c6_bool
        c6_txt c6_em c6_ph c6_ad c6_nm by simp
  have c7_pk: "\<not> ColumnInfo.is_primary_key ?c7"
    by (simp add: column_of_def)
  have c7_fk: "\<not> ColumnInfo.is_foreign_key ?c7"
    by (simp add: column_of_def)
  have c7_dt: "\<not> (any_in [''date'', ''time'', ''created'', ''modified'', ''updated'']
      (lower (ColumnInfo.name ?c7)) \<or> any_in [''date'', ''time'', ''timestamp''] (lower
      (ColumnInfo.data_type ?c7)))"
    by code_simp
  have c7_num: "\<not> any_in [''int'', ''decimal'', ''numeric'', ''float'', ''money'']
      (lower (ColumnInfo.data_type ?c7))"
    by code_simp
  have c7_bool: "\<not> (any_in [''bit'', ''bool''] (lower (ColumnInfo.data_type ?c7))
      \<or> any_in [''is_'', ''has_'', ''active'', ''enabled''] (lower (ColumnInfo.name
      ?c7)))"
    by code_simp
  have c7_txt: "\<not> any_in [''varchar'', ''text'', ''char''] (lower
      (ColumnInfo.data_type ?c7))"
    by code_simp
  have c7: "determine_column_category ?c7 = ''general''"
    using determine_column_category_precedence [of ?c7] c7_pk c7_fk c7_dt c7_num c7_bool
        c7_txt by simp
  from c1_pk c2_pk c2_fk c1 c2 c3 c4 c5 c6 c7 show ?thesis by (intro conjI)
qed


text \<open>
  Claim C5, as the code has it. For a column that is no primary key and no foreign key,
  whose name and type do not make it a datetime and whose type is not numeric, the
  category is \<^verbatim>\<open>boolean\<close> exactly when the lowered type contains \<^verbatim>\<open>bit\<close> or \<^verbatim>\<open>bool\<close> or
  the lowered name contains \<^verbatim>\<open>is_\<close>, \<^verbatim>\<open>has_\<close>, \<^verbatim>\<open>active\<close> or \<^verbatim>\<open>enabled\<close>: the code tests
  \<^verbatim>\<open>is_\<close> and \<^verbatim>\<open>has_\<close> with \<^verbatim>\<open>in\<close>, anywhere in the name, as it does every other term.
\<close>

theorem boolean_rule:
  assumes "\<not> ColumnInfo.is_primary_key c" and "\<not> ColumnInfo.is_foreign_key c"
    and "\<not> (any_in [''date'', ''time'', ''created'', ''modified'', ''updated'']
              (lower (ColumnInfo.name c))
            \<or> any_in [''date'', ''time'', ''timestamp''] (lower (ColumnInfo.data_type c)))"
    and "\<not> any_in [''int'', ''decimal'', ''numeric'', ''float'', ''money'']
              (lower (ColumnInfo.data_type c))"
  shows "(determine_column_category c = ''boolean'') =
         (py_in ''bit'' (lower (ColumnInfo.data_type c))
          \<or> py_in ''bool'' (lower (ColumnInfo.data_type c))
          \<or> py_in ''is_'' (lower (ColumnInfo.name c))
          \<or> py_in ''has_'' (lower (ColumnInfo.name c))
          \<or> py_in ''active'' (lower (ColumnInfo.name c))
          \<or> py_in ''enabled'' (lower (ColumnInfo.name c)))"
  using assms by (simp add: determine_column_category_def Let_def any_in_def)

theorem boolean_rule_witness:
  "\<not> ColumnInfo.is_primary_key (column_of ''has_children'' ''varchar'' False False) \<and>
   \<not> ColumnInfo.is_foreign_key (column_of ''has_children'' ''varchar'' False False) \<and>
   \<not> (any_in [''date'', ''time'', ''created'', ''modified'', ''updated'']
          (lower (ColumnInfo.name (column_of ''has_children'' ''varchar'' False False)))
        \<or> any_in [''date'', ''time'', ''timestamp'']
          (lower (ColumnInfo.data_type (column_of ''has_children'' ''varchar'' False False)))) \<and>
   \<not> any_in [''int'', ''decimal'', ''numeric'', ''float'', ''money'']
          (lower (ColumnInfo.data_type (column_of ''has_children'' ''varchar'' False False))) \<and>
   determine_column_category (column_of ''has_children'' ''varchar'' False False) = ''boolean''"
proof -
  let ?c = "column_of ''has_children'' ''varchar'' False False"
  have h1: "\<not> ColumnInfo.is_primary_key ?c" by (simp add: column_of_def)
  have h2: "\<not> ColumnInfo.is_foreign_key ?c" by (simp add: column_of_def)
  have h3: "\<not> (any_in [''date'', ''time'', ''created'', ''modified'', ''updated'']
              (lower (ColumnInfo.name ?c))
            \<or> any_in [''date'', ''time'', ''timestamp''] (lower (ColumnInfo.data_type ?c)))"
    by code_simp
  have h4: "\<not> any_in [''int'', ''decimal'', ''numeric'', ''float'', ''money'']
              (lower (ColumnInfo.data_type ?c))"
    by code_simp
  have h5: "py_in ''has_'' (lower (ColumnInfo.name ?c))" by code_simp
  from boolean_rule [OF h1 h2 h3 h4] h5
  have "determine_column_category ?c = ''boolean''" by simp
  with h1 h2 h3 h4 show ?thesis by (intro conjI)
qed

text \<open>
  The claim C5 says that the name starts with \<^verbatim>\<open>is_\<close> or \<^verbatim>\<open>has_\<close>. The column
  \<^verbatim>\<open>this_thing\<close> of type \<^verbatim>\<open>varchar\<close> meets none of the claim's conditions, rules 1 to 4 do
  not apply to it, and it is a \<^verbatim>\<open>boolean\<close>, since \<^verbatim>\<open>this_thing\<close> contains \<^verbatim>\<open>is_\<close>.
\<close>

theorem boolean_contains_counterexample:
  "\<not> ColumnInfo.is_primary_key (column_of ''this_thing'' ''varchar'' False False) \<and>
   \<not> ColumnInfo.is_foreign_key (column_of ''this_thing'' ''varchar'' False False) \<and>
   \<not> any_in [''date'', ''time'', ''created'', ''modified'', ''updated''] (lower ''this_thing'') \<and>
   \<not> any_in [''date'', ''time'', ''timestamp''] (lower ''varchar'') \<and>
   \<not> any_in [''int'', ''decimal'', ''numeric'', ''float'', ''money''] (lower ''varchar'') \<and>
   determine_column_category (column_of ''this_thing'' ''varchar'' False False) = ''boolean'' \<and>
   \<not> py_in ''bit'' (lower ''varchar'') \<and> \<not> py_in ''bool'' (lower ''varchar'') \<and>
   \<not> startswith (lower ''this_thing'') ''is_'' \<and>
   \<not> startswith (lower ''this_thing'') ''has_'' \<and>
   \<not> py_in ''active'' (lower ''this_thing'') \<and> \<not> py_in ''enabled'' (lower ''this_thing'')"
  by code_simp

section \<open>Search terms\<close>

lemma strip_Nil: "strip [] = []"
  by (simp add: strip_def)

lemma create_search_terms_distinct: "distinct (create_search_terms s)"
  by (simp add: create_search_terms_def list_of_set_def Let_def)

lemma create_search_terms_no_blank: "t \<in> set (create_search_terms s) \<Longrightarrow> strip t \<noteq> []"
  by (simp add: create_search_terms_def list_of_set_def Let_def)

lemma create_search_terms_original: "strip s \<noteq> [] \<Longrightarrow> s \<in> set (create_search_terms s)"
  by (simp add: create_search_terms_def list_of_set_def Let_def)

text \<open>
  Claim C7, as the code has it. For every identifier the list of search terms has no
  duplicates and no empty string, and it contains the identifier itself when the
  identifier has a character that is not white space. The last line of
  \<^verbatim>\<open>create_search_terms\<close> drops every term that \<^verbatim>\<open>strip()\<close> empties, the identifier too.
\<close>

theorem create_search_terms_properties:
  "distinct (create_search_terms s) \<and> [] \<notin> set (create_search_terms s) \<and>
   (strip s \<noteq> [] \<longrightarrow> s \<in> set (create_search_terms s))"
  using create_search_terms_distinct [of s] create_search_terms_no_blank [of "[]" s]
    create_search_terms_original [of s] strip_Nil
  by blast

theorem create_search_terms_properties_witness:
  "strip ''CustomerID'' \<noteq> [] \<and> ''CustomerID'' \<in> set (create_search_terms ''CustomerID'')"
proof -
  have h: "strip ''CustomerID'' \<noteq> []" by code_simp
  with create_search_terms_properties [of "''CustomerID''"] show ?thesis by simp
qed

text \<open>
  The empty identifier and the identifier of one blank have no search terms at all, so
  the list does not contain them, in whatever case.
\<close>

theorem create_search_terms_blank_counterexample:
  "create_search_terms [] = [] \<and> create_search_terms '' '' = []"
  by code_simp

section \<open>An identifier that is only a suffix\<close>

lemma lower_length: "length (lower s) = length s"
  by (simp add: lower_def)

lemma remove_suffix_whole:
  assumes "lower s = suffix" and "suffix \<in> set suffixes_to_remove"
  shows "remove_suffix suffixes_to_remove (remove_prefix prefixes_to_remove s) = []"
proof -
  have "length s = length (lower s)" by (simp add: lower_length)
  with assms(1) have len: "length s = length suffix" by simp
  from assms(2) consider "suffix = ''_id''" | "suffix = ''_key''" | "suffix = ''_ref''"
    | "suffix = ''_tbl''" | "suffix = ''_table''"
    by (auto simp: suffixes_to_remove_def)
  then show ?thesis
  proof cases
    case 1
    with len assms(1) show ?thesis
      by (simp add: prefixes_to_remove_def suffixes_to_remove_def startswith_def endswith_def)
  next
    case 2
    with len assms(1) show ?thesis
      by (simp add: prefixes_to_remove_def suffixes_to_remove_def startswith_def endswith_def)
  next
    case 3
    with len assms(1) show ?thesis
      by (simp add: prefixes_to_remove_def suffixes_to_remove_def startswith_def endswith_def)
  next
    case 4
    with len assms(1) show ?thesis
      by (simp add: prefixes_to_remove_def suffixes_to_remove_def startswith_def endswith_def)
  next
    case 5
    with len assms(1) show ?thesis
      by (simp add: prefixes_to_remove_def suffixes_to_remove_def startswith_def endswith_def)
  qed
qed

text \<open>
  Claim C10. An identifier that is, in whatever case, exactly one of the suffixes
  \<^verbatim>\<open>_id\<close>, \<^verbatim>\<open>_key\<close>, \<^verbatim>\<open>_ref\<close>, \<^verbatim>\<open>_tbl\<close>, \<^verbatim>\<open>_table\<close> has the empty string as its natural
  name: the suffix is cut off, nothing is left, and the identifier is not put back.
\<close>

theorem suffix_only_gives_empty:
  assumes "lower s \<in> set suffixes_to_remove"
  shows "convert_technical_to_natural s = []"
proof -
  from assms have "remove_suffix suffixes_to_remove (remove_prefix prefixes_to_remove s) = []"
    by (rule remove_suffix_whole [OF refl])
  then show ?thesis
    by (simp add: convert_technical_to_natural_def Let_def camel_case_to_words_def split_def)
qed

theorem suffix_only_gives_empty_witness:
  "lower ''_id'' \<in> set suffixes_to_remove \<and> convert_technical_to_natural ''_id'' = []"
proof -
  have h: "lower ''_id'' \<in> set suffixes_to_remove" by code_simp
  from h suffix_only_gives_empty [OF h] show ?thesis by simp
qed

section \<open>The counts of the database mapping\<close>

lemma dict_set_keys_present: "k \<in> set (map fst d) \<Longrightarrow> map fst (dict_set d k v) = map fst d"
proof (induction d)
  case Nil
  then show ?case by simp
next
  case (Cons p d)
  obtain k' v' where p: "p = (k', v')" by (cases p)
  show ?case
  proof (cases "k' = k")
    case True
    with p show ?thesis by simp
  next
    case False
    with Cons.prems p have "k \<in> set (map fst d)" by simp
    with Cons.IH p False show ?thesis by simp
  qed
qed

lemma dict_set_fresh: "k \<notin> set (map fst d) \<Longrightarrow> dict_set d k v = d @ [(k, v)]"
  by (induction d) auto

lemma dict_set_keys:
  "map fst (dict_set d k v) = (if k \<in> set (map fst d) then map fst d else map fst d @ [k])"
  by (simp add: dict_set_keys_present dict_set_fresh)

lemma foldl_dict_set_keys:
  "distinct (map fst d) \<Longrightarrow>
   distinct (map fst (foldl (\<lambda>d x. dict_set d (key x) (val x)) d xs)) \<and>
   set (map fst (foldl (\<lambda>d x. dict_set d (key x) (val x)) d xs))
     = set (map fst d) \<union> set (map key xs)"
proof (induction xs arbitrary: d)
  case Nil
  then show ?case by simp
next
  case (Cons x xs)
  have "distinct (map fst (dict_set d (key x) (val x)))"
    using Cons.prems by (simp add: dict_set_keys)
  from Cons.IH [OF this] show ?case by (auto simp: dict_set_keys)
qed

lemma length_column_mappings:
  "length (column_mappings t) = length (remdups (map ColumnInfo.name (TableInfo.columns t)))"
proof -
  let ?d = "foldl (\<lambda>d x. dict_set d (ColumnInfo.name x) (generate_column_mapping t x)) []
              (TableInfo.columns t)"
  have "distinct (map fst ([] :: (string \<times> ColumnMapping) list))" by simp
  from foldl_dict_set_keys [OF this, of ColumnInfo.name "generate_column_mapping t"
      "TableInfo.columns t"]
  have k1: "distinct (map fst ?d)"
    and k2: "set (map fst ?d) = set (map ColumnInfo.name (TableInfo.columns t))"
    by simp_all
  have "length ?d = length (map fst ?d)" by simp
  also have "\<dots> = card (set (map fst ?d))" using k1 by (rule distinct_card [symmetric])
  also have "\<dots> = card (set (map ColumnInfo.name (TableInfo.columns t)))" by (simp only: k2)
  also have "\<dots> = length (remdups (map ColumnInfo.name (TableInfo.columns t)))"
    by (simp only: length_remdups_card_conv)
  finally show ?thesis by (simp add: column_mappings_def)
qed

lemma foldl_dict_set_fresh:
  "distinct (map fst xs) \<Longrightarrow> set (map fst d) \<inter> set (map fst xs) = {} \<Longrightarrow>
   foldl (\<lambda>tables item. case item of (k, t) \<Rightarrow> dict_set tables k (f t)) d xs
     = d @ map (\<lambda>(k, t). (k, f t)) xs"
proof (induction xs arbitrary: d)
  case Nil
  then show ?case by simp
next
  case (Cons x xs)
  obtain k t where x: "x = (k, t)" by (cases x)
  from Cons.prems x have fresh: "k \<notin> set (map fst d)" by auto
  from Cons.prems x have "set (map fst (d @ [(k, f t)])) \<inter> set (map fst xs) = {}" by auto
  moreover from Cons.prems have "distinct (map fst xs)" by simp
  ultimately have "foldl (\<lambda>tables item. case item of (k, t) \<Rightarrow> dict_set tables k (f t))
      (d @ [(k, f t)]) xs = (d @ [(k, f t)]) @ map (\<lambda>(k, t). (k, f t)) xs"
    by (rule Cons.IH [rotated])
  with fresh x show ?case by (simp add: dict_set_fresh)
qed

lemma table_mappings_distinct:
  "distinct (map fst schema_info) \<Longrightarrow>
   table_mappings schema_info = map (\<lambda>(k, t). (k, generate_table_mapping t)) schema_info"
  using foldl_dict_set_fresh [of schema_info "[]" generate_table_mapping]
  by (simp add: table_mappings_def)

lemma total_columns_sum:
  "sum_list (map (\<lambda>table. length (TableMapping.columns table))
     (map snd (map (\<lambda>(k, t). (k, generate_table_mapping t)) schema_info)))
   = sum_list (map (\<lambda>(k, t). length (remdups (map ColumnInfo.name (TableInfo.columns t))))
       schema_info)"
  by (induction schema_info)
    (auto simp: generate_table_mapping_def Let_def length_column_mappings)

lemma length_table_mappings:
  "distinct (map fst schema_info) \<Longrightarrow> length (table_mappings schema_info) = length schema_info"
  by (simp add: table_mappings_distinct)

lemma total_columns_of_tables:
  "distinct (map fst schema_info) \<Longrightarrow>
   sum_list (map (\<lambda>table. length (TableMapping.columns table))
     (map snd (table_mappings schema_info)))
   = sum_list (map (\<lambda>(k, t). length (remdups (map ColumnInfo.name (TableInfo.columns t))))
       schema_info)"
  by (simp only: table_mappings_distinct total_columns_sum)

lemma generate_database_mapping_counts:
  assumes "distinct (map fst schema_info)" and "schema_info \<noteq> []"
  shows "\<exists>m. generate_database_mapping self now1 now2 schema_info = Some m
           \<and> total_tables (client_info m) = length schema_info
           \<and> total_columns (client_info m)
               = sum_list (map (\<lambda>(k, t). length (remdups (map ColumnInfo.name
                   (TableInfo.columns t)))) schema_info)"
proof -
  let ?m = "the (generate_database_mapping self now1 now2 schema_info)"
  from assms(2) have "generate_database_mapping self now1 now2 schema_info = Some ?m"
    by (simp add: generate_database_mapping_def Let_def)
  moreover from assms(2) have "total_tables (client_info ?m) = length (table_mappings schema_info)"
    by (simp add: generate_database_mapping_def Let_def)
  moreover from assms(2) have "total_columns (client_info ?m)
      = sum_list (map (\<lambda>table. length (TableMapping.columns table))
          (map snd (table_mappings schema_info)))"
    by (simp add: generate_database_mapping_def Let_def del: map_map)
  ultimately show ?thesis
    using length_table_mappings [OF assms(1)] total_columns_of_tables [OF assms(1)]
    by (intro exI [of _ ?m]) (simp only: simp_thms)
qed

lemma generate_database_mapping_empty:
  "(generate_database_mapping self now1 now2 schema_info = None) = (schema_info = [])"
  by (simp add: generate_database_mapping_def Let_def)

lemma sum_column_counts:
  assumes "\<forall>(k, t)\<in>set schema_info. distinct (map ColumnInfo.name (TableInfo.columns t))"
  shows "sum_list (map (\<lambda>(k, t). length (remdups (map ColumnInfo.name
           (TableInfo.columns t)))) schema_info)
         = sum_list (map (\<lambda>(k, t). length (TableInfo.columns t)) schema_info)"
proof -
  have "map (\<lambda>(k, t). length (remdups (map ColumnInfo.name (TableInfo.columns t)))) schema_info
      = map (\<lambda>(k, t). length (TableInfo.columns t)) schema_info"
  proof (rule map_cong [OF refl])
    fix x assume x: "x \<in> set schema_info"
    obtain k t where kt: "x = (k, t)" by (cases x)
    with x assms have "distinct (map ColumnInfo.name (TableInfo.columns t))" by auto
    then have "length (remdups (map ColumnInfo.name (TableInfo.columns t)))
        = length (TableInfo.columns t)" by (simp add: distinct_remdups_id)
    with kt show "(case x of (k, t) \<Rightarrow> length (remdups (map ColumnInfo.name
           (TableInfo.columns t)))) = (case x of (k, t) \<Rightarrow> length (TableInfo.columns t))"
      by simp
  qed
  then show ?thesis by (rule arg_cong)
qed


text \<open>
  Claim C8. \<open>schema_info\<close> is a dictionary, so its keys are distinct, and the columns of
  a table have distinct names, as the columns of a relational table do (the extractor
  reads one row of \<^verbatim>\<open>INFORMATION_SCHEMA.COLUMNS\<close> for each). Then the result is empty
  (\<open>None\<close>) exactly when \<open>schema_info\<close> is empty, and otherwise \<^verbatim>\<open>total_tables\<close> is the
  number of tables and \<^verbatim>\<open>total_columns\<close> the sum of their column counts.
\<close>

theorem generate_database_mapping_totals:
  assumes "distinct (map fst schema_info)"
    and "\<forall>(k, t)\<in>set schema_info. distinct (map ColumnInfo.name (TableInfo.columns t))"
  shows "(generate_database_mapping self now1 now2 schema_info = None) = (schema_info = [])
    \<and> (schema_info \<noteq> [] \<longrightarrow>
         (\<exists>m. generate_database_mapping self now1 now2 schema_info = Some m
            \<and> total_tables (client_info m) = length schema_info
            \<and> total_columns (client_info m)
                = sum_list (map (\<lambda>(k, t). length (TableInfo.columns t)) schema_info)))"
proof (intro conjI impI)
  show "(generate_database_mapping self now1 now2 schema_info = None) = (schema_info = [])"
    by (rule generate_database_mapping_empty)
next
  assume "schema_info \<noteq> []"
  with assms(1) have "\<exists>m. generate_database_mapping self now1 now2 schema_info = Some m
            \<and> total_tables (client_info m) = length schema_info
            \<and> total_columns (client_info m)
                = sum_list (map (\<lambda>(k, t). length (remdups (map ColumnInfo.name
                    (TableInfo.columns t)))) schema_info)"
    by (rule generate_database_mapping_counts)
  then show "\<exists>m. generate_database_mapping self now1 now2 schema_info = Some m
            \<and> total_tables (client_info m) = length schema_info
            \<and> total_columns (client_info m)
                = sum_list (map (\<lambda>(k, t). length (TableInfo.columns t)) schema_info)"
    by (simp only: sum_column_counts [OF assms(2)])
qed

theorem generate_database_mapping_totals_witness:
  "distinct (map fst customers) \<and>
   list_all (\<lambda>(k, t). distinct (map ColumnInfo.name (TableInfo.columns t))) customers \<and>
   customers \<noteq> [] \<and>
   (\<exists>m. generate_database_mapping client_a ''t1'' ''t2'' customers = Some m
      \<and> total_tables (client_info m) = 1 \<and> total_columns (client_info m) = 2)"
proof -
  have d: "distinct (map fst customers)" by (simp add: customers_def)
  have a: "list_all (\<lambda>(k, t). distinct (map ColumnInfo.name (TableInfo.columns t))) customers"
    by (simp add: customers_def table_of_def column_of_def)
  then have c: "\<forall>(k, t)\<in>set customers. distinct (map ColumnInfo.name (TableInfo.columns t))"
    by (simp only: list_all_iff)
  have n: "customers \<noteq> []" by (simp add: customers_def)
  have l: "length customers = 1" by (simp add: customers_def)
  have s: "sum_list (map (\<lambda>(k, t). length (TableInfo.columns t)) customers) = 2"
    by (simp add: customers_def table_of_def)
  from generate_database_mapping_totals [OF d c, of client_a "''t1''" "''t2''"] n
  have "\<exists>m. generate_database_mapping client_a ''t1'' ''t2'' customers = Some m
      \<and> total_tables (client_info m) = length customers
      \<and> total_columns (client_info m)
          = sum_list (map (\<lambda>(k, t). length (TableInfo.columns t)) customers)"
    by (rule conjunct2 [THEN mp])
  then show ?thesis unfolding l s using d a n by (intro conjI)
qed

section \<open>Empty and missing input\<close>

text \<open>
  Claim C4, as the code has it. On \<^verbatim>\<open>None\<close> and on the empty string \<^verbatim>\<open>normalize_text\<close> and
  \<^verbatim>\<open>convert_technical_to_natural\<close> return the empty string and
  \<^verbatim>\<open>extract_meaningful_words\<close> the empty list; on the empty string
  \<^verbatim>\<open>create_search_terms\<close> returns the empty list, and \<^verbatim>\<open>generate_synonyms\<close> returns
  without raising a list that contains the empty string, the word it was given.
\<close>

theorem empty_input_results:
  "call_normalize_text None = Inr [] \<and> call_normalize_text (Some []) = Inr [] \<and>
   call_convert_technical_to_natural None = Inr [] \<and>
   call_convert_technical_to_natural (Some []) = Inr [] \<and>
   call_extract_meaningful_words None = Inr [] \<and>
   call_extract_meaningful_words (Some []) = Inr [] \<and>
   call_create_search_terms (Some []) = Inr [] \<and>
   call_generate_synonyms (Some []) = Inr (generate_synonyms []) \<and>
   [] \<in> set (generate_synonyms [])"
  by (simp add: call_normalize_text_def call_convert_technical_to_natural_def
      call_extract_meaningful_words_def call_create_search_terms_def
      call_generate_synonyms_def normalize_text_def convert_technical_to_natural_def
      extract_meaningful_words_def create_search_terms_def generate_synonyms_def
      list_of_set_def strip_def Let_def)

lemma generate_synonyms_original: "word \<in> set (generate_synonyms word)"
  by (simp add: generate_synonyms_def list_of_set_def Let_def)

text \<open>
  \<^verbatim>\<open>generate_synonyms("")\<close> is not the empty list, as the claim C4 would have it: the
  empty string is a substring of every key of the table, so the result holds every
  synonym of the table beside the empty string.
\<close>

theorem generate_synonyms_empty_counterexample:
  "call_generate_synonyms (Some []) \<noteq> Inr []"
proof
  assume "call_generate_synonyms (Some []) = Inr []"
  then have "generate_synonyms [] = []" by (simp add: call_generate_synonyms_def)
  with generate_synonyms_original [of "[]"] show False by simp
qed

text \<open>The two functions without a test of their argument raise on \<^verbatim>\<open>None\<close>.\<close>

lemma none_raises:
  "call_generate_synonyms None = Inl AttributeError \<and>
   call_create_search_terms None = Inl AttributeError"
  by (simp add: call_generate_synonyms_def call_create_search_terms_def)

section \<open>The search index\<close>

lemma terms_Customers: "create_search_terms ''Customers'' = [''Customers'', ''customers'']"
  by code_simp

lemma terms_CustomerID:
  "create_search_terms ''CustomerID'' = [''CustomerID'', ''Customer Id'', ''customer'']"
  by code_simp

lemma terms_CustomerName:
  "create_search_terms ''CustomerName''
     = [''CustomerName'', ''Customer Name'', ''customer'', ''name'', ''title'', ''label'',
        ''description'']"
  by code_simp

lemma lower_terms:
  "lower ''Customers'' = ''customers''" "lower ''customers'' = ''customers''"
  "lower ''CustomerID'' = ''customerid''" "lower ''Customer Id'' = ''customer id''"
  "lower ''customer'' = ''customer''" "lower ''CustomerName'' = ''customername''"
  "lower ''Customer Name'' = ''customer name''" "lower ''name'' = ''name''"
  "lower ''title'' = ''title''" "lower ''label'' = ''label''"
  "lower ''description'' = ''description''"
  by code_simp+

lemma map_of_dict_set: "map_of (dict_set d k v) k' = (if k' = k then Some v else map_of d k')"
  by (induction d) auto

lemma bucket_dict_set: "bucket (dict_set d k v) k' = (if k' = k then v else bucket d k')"
  by (simp add: bucket_def map_of_dict_set)

lemma bucket_add_column_term_other:
  "k \<noteq> lower t \<Longrightarrow> bucket (add_column_term p idx t) k = bucket idx k"
  by (simp add: add_column_term_def Let_def bucket_dict_set)

lemma bucket_column_terms_other:
  "k \<notin> set (map lower ts) \<Longrightarrow> bucket (foldl (add_column_term p) idx ts) k = bucket idx k"
  by (induction ts arbitrary: idx) (simp_all add: bucket_add_column_term_other)

lemma bucket_add_column_other:
  "k \<notin> set (map lower (create_search_terms (ColumnInfo.name c))) \<Longrightarrow>
   bucket (add_column tn idx c) k = bucket idx k"
  by (simp add: add_column_def bucket_column_terms_other)

text \<open>
  Claim C1 says that no bucket of the search index holds a path twice. For the table
  \<^verbatim>\<open>dbo.Customers\<close> with the columns \<^verbatim>\<open>CustomerID\<close> and \<^verbatim>\<open>CustomerName\<close> the search terms
  of the table are \<^verbatim>\<open>Customers\<close> and \<^verbatim>\<open>customers\<close>. Both are lowered to \<^verbatim>\<open>customers\<close>, the
  table path is appended for each without the test that guards the column paths, and
  the bucket of \<^verbatim>\<open>customers\<close> holds the table path twice.
\<close>

theorem search_index_table_path_twice:
  "bucket (generate_search_index customers) ''customers''
     = [''dbo.Customers'', ''dbo.Customers'']"
proof -
  let ?id = "column_of ''CustomerID'' ''int'' True False"
  let ?nm = "column_of ''CustomerName'' ''varchar'' False False"
  let ?tab = "foldl (add_table_term ''dbo.Customers'') []
                (create_search_terms ''Customers'')"
  have tab: "bucket ?tab ''customers'' = [''dbo.Customers'', ''dbo.Customers'']"
    by (simp add: terms_Customers lower_terms add_table_term_def dict_has_def bucket_def
        Let_def)
  have id: "''customers'' \<notin> set (map lower (create_search_terms (ColumnInfo.name ?id)))"
    by (simp add: column_of_def terms_CustomerID lower_terms)
  have nm: "''customers'' \<notin> set (map lower (create_search_terms (ColumnInfo.name ?nm)))"
    by (simp add: column_of_def terms_CustomerName lower_terms)
  have "generate_search_index customers
      = add_column ''dbo.Customers'' (add_column ''dbo.Customers'' ?tab ?id) ?nm"
    by (simp add: generate_search_index_def customers_def add_table_def table_of_def)
  then show ?thesis
    by (simp only: bucket_add_column_other [OF nm] bucket_add_column_other [OF id] tab)
qed

end
